theory Spec2Isabelle
  imports Complex_Main
begin

section \<open>Report entities\<close>

text \<open>
  The exceptions of the Python source that the modelled functions can raise.
  \<open>NotInDataModel\<close> is not a Python exception: the BSON readers of the source copy a
  stored value into the report whatever its type, and the typed records below have a
  place only for values of the data model, so a document holding any other value has
  no image among them.
\<close>

datatype py_error = IndexError | ValueError | TypeError | KeyError | NotInDataModel

text \<open>
  \<open>MoveReport\<close>, \<open>GameReport\<close> and \<open>GameReportStore\<close> are named tuples. The activation,
  the advantage and the loss of a move are results of \<open>int(...)\<close>, the rank is an
  integer or \<open>None\<close>. Floating-point numbers are idealised as reals.
\<close>

record MoveReport =
  activation :: int
  rank :: "int option"
  ambiguity :: real
  advantage :: int
  loss :: int

record GameReport =
  id' :: string
  reportId :: string
  gameId :: string
  activation :: int
  moves :: "MoveReport list"

record GameReportStore =
  gameReports :: "GameReport list"

section \<open>Top games\<close>

text \<open>
  \<open>list.sort(key=lambda obj: -obj.activation)\<close> is a stable sort by the negated
  activation, as \<open>sort_key\<close> is.
\<close>

definition sortGames :: "GameReport list \<Rightarrow> GameReport list" where
  "sortGames gs = sort_key (\<lambda>obj. - GameReport.activation obj) gs"

text \<open>
  \<open>topGames\<close> sorts the list of the store in place and returns the games at the
  positions \<open>i\<close> with \<open>i <= p * len\<close> together with the games of activation at least 90.
  \<open>topGames\<close> is the returned list, \<open>topGames_store\<close> the store the call leaves behind.
\<close>

definition topGames :: "GameReportStore \<Rightarrow> real \<Rightarrow> GameReport list" where
  "topGames self p =
     (let gs = sortGames (gameReports self)
      in map snd (filter (\<lambda>(i, gameReport).
                     real i \<le> p * real (length gs) \<or> GameReport.activation gameReport \<ge> 90)
                   (enumerate 0 gs)))"

definition topGames_store :: "GameReportStore \<Rightarrow> GameReportStore" where
  "topGames_store self = self\<lparr>gameReports := sortGames (gameReports self)\<rparr>"

text \<open>
  The default argument \<open>p=0.15\<close>. The floating-point product \<open>p * len\<close> is idealised
  as the product of reals.
\<close>

definition topGames_default :: "GameReportStore \<Rightarrow> GameReport list" where
  "topGames_default self = topGames self (15 / 100)"

section \<open>Per-move series\<close>

text \<open>
  Python's \<open>max\<close> of a list raises \<open>ValueError\<close> on the empty list; a list comprehension
  whose element expression raises stops at the first exception.
\<close>

fun py_max_list :: "nat list \<Rightarrow> py_error + nat" where
  "py_max_list [] = Inl ValueError"
| "py_max_list (x # xs) = Inr (fold max xs x)"

fun sequence :: "('e + 'a) list \<Rightarrow> 'e + 'a list" where
  "sequence [] = Inr []"
| "sequence (x # xs) =
     (case x of
        Inl e \<Rightarrow> Inl e
      | Inr v \<Rightarrow> (case sequence xs of Inl e \<Rightarrow> Inl e | Inr vs \<Rightarrow> Inr (v # vs)))"

definition longestGame :: "GameReportStore \<Rightarrow> py_error + nat" where
  "longestGame self =
     (if length (gameReports self) = 0 then Inr 0
      else py_max_list (map (\<lambda>gameReport. length (moves gameReport)) (gameReports self)))"

text \<open>
  \<open>GameReport.losses\<close>: \<open>losses[-1]\<close> raises \<open>IndexError\<close> on the empty list; otherwise
  a last loss above 50 is overwritten with 0.
\<close>

definition GameReport_losses :: "GameReport \<Rightarrow> py_error + int list" where
  "GameReport_losses self =
     (let losses = map loss (moves self)
      in if losses = [] then Inl IndexError
         else if losses ! (length losses - 1) > 50
              then Inr (losses[length losses - 1 := 0])
              else Inr losses)"

definition GameReport_ranks :: "GameReport \<Rightarrow> int option \<Rightarrow> int option list" where
  "GameReport_ranks self subNone =
     map (\<lambda>move. if rank move = None then subNone else rank move) (moves self)"

definition GameReport_activations :: "GameReport \<Rightarrow> int list" where
  "GameReport_activations self = map MoveReport.activation (moves self)"

text \<open>The games an operation with the flag \<open>top\<close> (\<open>topFlag\<close> below) runs over.\<close>

definition selected :: "GameReportStore \<Rightarrow> bool \<Rightarrow> GameReport list" where
  "selected self topFlag = (if topFlag then topGames_default self else gameReports self)"

definition GameReportStore_losses :: "GameReportStore \<Rightarrow> bool \<Rightarrow> py_error + int list list" where
  "GameReportStore_losses self topFlag = sequence (map GameReport_losses (selected self topFlag))"

definition GameReportStore_ranks ::
    "GameReportStore \<Rightarrow> int option \<Rightarrow> bool \<Rightarrow> int option list list" where
  "GameReportStore_ranks self subNone topFlag =
     map (\<lambda>gameReport. GameReport_ranks gameReport subNone) (selected self topFlag)"

section \<open>Ragged transpose\<close>

text \<open>
  One pass of \<open>zipLOL\<close> over a sequence \<open>l\<close>: the comprehension walks the indices
  in order, appends \<open>l[i]\<close> to \<open>bins[i]\<close> unless it is \<open>None\<close>, and the first index
  outside \<open>l\<close> raises the \<open>IndexError\<close> that the \<open>except\<close> clause swallows; the
  appends made before it stay.
\<close>

fun appendRow :: "'a option list \<Rightarrow> nat list \<Rightarrow> 'a list list \<Rightarrow> 'a list list" where
  "appendRow l [] bins = bins"
| "appendRow l (i # is) bins =
     (if i < length l
      then (case l ! i of
              None \<Rightarrow> appendRow l is bins
            | Some v \<Rightarrow> appendRow l is (bins[i := bins ! i @ [v]]))
      else bins)"

definition zipLOL :: "'a option list list \<Rightarrow> py_error + 'a list list" where
  "zipLOL lol =
     (case py_max_list (map length lol) of
        Inl e \<Rightarrow> Inl e
      | Inr longest \<Rightarrow>
          Inr (fold (\<lambda>l bins. appendRow l [0..<longest] bins) lol (replicate longest [])))"

section \<open>Column statistics\<close>

text \<open>
  A numpy float: a number or \<open>nan\<close>. \<open>np.average\<close> and \<open>np.std\<close> of an empty column are
  \<open>nan\<close>; \<open>np.std\<close> is the population standard deviation. Every comparison with \<open>nan\<close>
  is false, and Python's \<open>max(a, b)\<close> is \<open>b\<close> when \<open>b > a\<close> and \<open>a\<close> otherwise.
\<close>

datatype npfloat = Num real | NaN

fun np_add :: "npfloat \<Rightarrow> npfloat \<Rightarrow> npfloat" where
  "np_add (Num a) (Num b) = Num (a + b)"
| "np_add _ _ = NaN"

fun np_sub :: "npfloat \<Rightarrow> npfloat \<Rightarrow> npfloat" where
  "np_sub (Num a) (Num b) = Num (a - b)"
| "np_sub _ _ = NaN"

fun np_less :: "npfloat \<Rightarrow> npfloat \<Rightarrow> bool" where
  "np_less (Num a) (Num b) = (a < b)"
| "np_less _ _ = False"

definition py_max :: "npfloat \<Rightarrow> real \<Rightarrow> npfloat" where
  "py_max a b = (if np_less a (Num b) then Num b else a)"

definition mean :: "int list \<Rightarrow> real" where
  "mean b = real_of_int (sum_list b) / real (length b)"

definition np_average :: "int list \<Rightarrow> npfloat" where
  "np_average b = (if b = [] then NaN else Num (mean b))"

definition np_std :: "int list \<Rightarrow> npfloat" where
  "np_std b =
     (if b = [] then NaN
      else Num (sqrt (sum_list (map (\<lambda>x. (real_of_int x - mean b)\<^sup>2) b) / real (length b))))"

definition zipAvgLOL :: "int option list list \<Rightarrow> py_error + npfloat list" where
  "zipAvgLOL lol =
     (case zipLOL lol of Inl e \<Rightarrow> Inl e | Inr bins \<Rightarrow> Inr (map np_average bins))"

definition zipStdLOL :: "int option list list \<Rightarrow> py_error + npfloat list" where
  "zipStdLOL lol =
     (case zipLOL lol of Inl e \<Rightarrow> Inl e | Inr bins \<Rightarrow> Inr (map np_std bins))"

record bracket =
  top' :: "npfloat list"
  bottom :: "npfloat list"

definition stdBracket :: "int option list list \<Rightarrow> real \<Rightarrow> py_error + bracket" where
  "stdBracket lol lowerLimit =
     (case zipStdLOL lol of
        Inl e \<Rightarrow> Inl e
      | Inr stds \<Rightarrow>
          (case zipAvgLOL lol of
             Inl e \<Rightarrow> Inl e
           | Inr avgs \<Rightarrow>
               Inr \<lparr>top' = map (\<lambda>(i, avg). np_add avg (stds ! i)) (enumerate 0 avgs),
                     bottom = map (\<lambda>(i, avg). py_max (np_sub avg (stds ! i)) lowerLimit)
                               (enumerate 0 avgs)\<rparr>))"

section \<open>The operations by move and the histograms\<close>

text \<open>
  The operations by move return the Python list \<open>[]\<close> or the text that \<open>json.dumps\<close>
  makes of a value; the text is represented by the value it encodes.
\<close>

datatype 'a py_result = PyEmptyList | JsonDumps 'a

definition averageLossByMove :: "GameReportStore \<Rightarrow> bool \<Rightarrow> py_error + npfloat list py_result" where
  "averageLossByMove self topFlag =
     (case longestGame self of
        Inl e \<Rightarrow> Inl e
      | Inr n \<Rightarrow>
          if n = 0 then Inr PyEmptyList
          else (case GameReportStore_losses self topFlag of
                  Inl e \<Rightarrow> Inl e
                | Inr ls \<Rightarrow>
                    (case zipAvgLOL (map (map Some) ls) of
                       Inl e \<Rightarrow> Inl e
                     | Inr avgs \<Rightarrow> Inr (JsonDumps avgs))))"

definition averageRankByMove :: "GameReportStore \<Rightarrow> bool \<Rightarrow> py_error + npfloat list py_result" where
  "averageRankByMove self topFlag =
     (case longestGame self of
        Inl e \<Rightarrow> Inl e
      | Inr n \<Rightarrow>
          if n = 0 then Inr PyEmptyList
          else (case zipAvgLOL (GameReportStore_ranks self (Some 6) topFlag) of
                  Inl e \<Rightarrow> Inl e
                | Inr avgs \<Rightarrow> Inr (JsonDumps avgs)))"

definition stdBracketLossByMove :: "GameReportStore \<Rightarrow> bool \<Rightarrow> py_error + bracket py_result" where
  "stdBracketLossByMove self topFlag =
     (case longestGame self of
        Inl e \<Rightarrow> Inl e
      | Inr n \<Rightarrow>
          if n = 0 then Inr PyEmptyList
          else (case GameReportStore_losses self topFlag of
                  Inl e \<Rightarrow> Inl e
                | Inr ls \<Rightarrow>
                    (case stdBracket (map (map Some) ls) 0 of
                       Inl e \<Rightarrow> Inl e
                     | Inr b \<Rightarrow> Inr (JsonDumps b))))"

definition stdBracketRankByMove :: "GameReportStore \<Rightarrow> bool \<Rightarrow> py_error + bracket py_result" where
  "stdBracketRankByMove self topFlag =
     (case longestGame self of
        Inl e \<Rightarrow> Inl e
      | Inr n \<Rightarrow>
          if n = 0 then Inr PyEmptyList
          else (case stdBracket (GameReportStore_ranks self (Some 6) topFlag) 1 of
                  Inl e \<Rightarrow> Inl e
                | Inr b \<Rightarrow> Inr (JsonDumps b)))"

text \<open>
  \<open>range(0, 100, 10)\<close> is the list of the ten lower bounds, \<open>x in range(i, i+10)\<close> holds
  for an integer \<open>x\<close> with \<open>i <= x < i+10\<close>, and \<open>[::-1]\<close> reverses.
\<close>

definition decades :: "int list" where
  "decades = map (\<lambda>k. 10 * int k) [0..<10]"

definition histogram :: "int list \<Rightarrow> int list" where
  "histogram xs =
     rev (map (\<lambda>i. sum_list (map (\<lambda>x. if i \<le> x \<and> x < i + 10 then 1 else 0) xs)) decades)"

definition binnedActivations :: "GameReportStore \<Rightarrow> bool \<Rightarrow> int list py_result" where
  "binnedActivations self topFlag =
     JsonDumps (histogram (map GameReport.activation (selected self topFlag)))"

text \<open>
  \<open>reduce(operator.concat, xs)\<close> without an initial value raises \<open>TypeError\<close> on the
  empty list.
\<close>

fun reduce_concat :: "'a list list \<Rightarrow> py_error + 'a list" where
  "reduce_concat [] = Inl TypeError"
| "reduce_concat (x # xs) = Inr (foldl (@) x xs)"

definition binnedMoveActivations :: "GameReportStore \<Rightarrow> bool \<Rightarrow> py_error + int list py_result" where
  "binnedMoveActivations self topFlag =
     (case reduce_concat (map GameReport_activations (selected self topFlag)) of
        Inl e \<Rightarrow> Inl e
      | Inr moveActivations \<Rightarrow> Inr (JsonDumps (histogram moveActivations)))"

section \<open>Report builder\<close>

definition py_bind :: "'e + 'a \<Rightarrow> ('a \<Rightarrow> 'e + 'b) \<Rightarrow> 'e + 'b" where
  "py_bind r f = (case r of Inl e \<Rightarrow> Inl e | Inr v \<Rightarrow> f v)"

text \<open>
  Indexing a list with a constant that is not negative, and \<open>int(x)\<close> of a float, which
  truncates towards zero.
\<close>

definition py_get :: "'a list \<Rightarrow> nat \<Rightarrow> py_error + 'a" where
  "py_get xs i = (if i < length xs then Inr (xs ! i) else Inl IndexError)"

definition py_int :: "real \<Rightarrow> int" where
  "py_int x = (if 0 \<le> x then \<lfloor>x\<rfloor> else \<lceil>x\<rceil>)"

text \<open>
  Modelled from the spec: the classes of the analysed move and the analysed game are
  not in the source file. An analysed move is taken as the record of what its methods
  \<open>trueRank()\<close>, \<open>ambiguity()\<close>, \<open>advantage()\<close> and \<open>winningChancesLoss()\<close> return, an
  analysed game as its \<open>gameId\<close> and its list \<open>analysedMoves\<close>.
\<close>

record AnalysedMove =
  trueRank :: "int option"
  ambiguity :: real
  advantage :: real
  winningChancesLoss :: real

record AnalysedGame =
  gameId :: string
  analysedMoves :: "AnalysedMove list"

text \<open>
  The predictions are nested arrays: \<open>gamePredictions[1][0]\<close> and \<open>gamePredictions[2][0]\<close>
  are the two lists that \<open>movePredictions\<close> zips, and \<open>moveActivation\<close> reads the first
  component of both entries of a pair.
\<close>

type_synonym prediction = "real list"

definition movePredictions ::
    "prediction list list list \<Rightarrow> py_error + (prediction \<times> prediction) list" where
  "movePredictions gamePredictions =
     py_bind (py_get gamePredictions 1) (\<lambda>o1.
     py_bind (py_get o1 0) (\<lambda>xs.
     py_bind (py_get gamePredictions 2) (\<lambda>o2.
     py_bind (py_get o2 0) (\<lambda>ys.
     Inr (zip xs ys)))))"

definition moveActivation :: "prediction \<times> prediction \<Rightarrow> py_error + int" where
  "moveActivation movePrediction =
     py_bind (py_get (fst movePrediction) 0) (\<lambda>a.
     py_bind (py_get (snd movePrediction) 0) (\<lambda>b.
     Inr (py_int (50 * (a + b)))))"

definition MoveReport_new :: "AnalysedMove \<Rightarrow> prediction \<times> prediction \<Rightarrow> py_error + MoveReport" where
  "MoveReport_new analysedMove movePrediction =
     py_bind (moveActivation movePrediction) (\<lambda>a.
     Inr \<lparr>MoveReport.activation = a,
          rank = trueRank analysedMove,
          MoveReport.ambiguity = AnalysedMove.ambiguity analysedMove,
          MoveReport.advantage = py_int (100 * AnalysedMove.advantage analysedMove),
          loss = py_int (100 * winningChancesLoss analysedMove)\<rparr>)"

definition GameReport_new ::
    "AnalysedGame \<Rightarrow> int \<Rightarrow> prediction list list list list \<Rightarrow> string \<Rightarrow> string
     \<Rightarrow> py_error + GameReport" where
  "GameReport_new analysedGame gameActivation gamePredictions reportId' userId =
     py_bind (py_get gamePredictions 0) (\<lambda>gp.
     py_bind (movePredictions gp) (\<lambda>ps.
     py_bind (sequence (map (\<lambda>(am, p). MoveReport_new am p)
                          (zip (analysedMoves analysedGame) ps))) (\<lambda>ms.
     Inr \<lparr>id' = AnalysedGame.gameId analysedGame @ ''/'' @ reportId',
          reportId = reportId',
          GameReport.gameId = AnalysedGame.gameId analysedGame,
          GameReport.activation = gameActivation,
          moves = ms\<rparr>)))"

section \<open>Store adapters\<close>

text \<open>
  A stored value: the adapters write dictionaries (here lists of key and value, in the
  order of the source), lists, numbers, strings and \<open>None\<close>.
\<close>

datatype bson =
    BNull
  | BInt int
  | BDouble real
  | BString string
  | BArray "bson list"
  | BDocument "(string \<times> bson) list"

text \<open>
  \<open>bson[key]\<close> with a string key raises \<open>KeyError\<close> on a dictionary without the key and
  \<open>TypeError\<close> on every other value. Iterating yields the elements of a list, the keys
  of a dictionary and the characters of a string, and raises \<open>TypeError\<close> otherwise.
\<close>

fun getitem :: "bson \<Rightarrow> string \<Rightarrow> py_error + bson" where
  "getitem (BDocument d) k = (case map_of d k of None \<Rightarrow> Inl KeyError | Some v \<Rightarrow> Inr v)"
| "getitem _ k = Inl TypeError"

fun iterate :: "bson \<Rightarrow> py_error + bson list" where
  "iterate (BArray xs) = Inr xs"
| "iterate (BDocument d) = Inr (map (\<lambda>kv. BString (fst kv)) d)"
| "iterate (BString s) = Inr (map (\<lambda>c. BString [c]) s)"
| "iterate _ = Inl TypeError"

text \<open>The values of the data model among the stored values.\<close>

fun as_int :: "bson \<Rightarrow> py_error + int" where
  "as_int (BInt i) = Inr i"
| "as_int _ = Inl NotInDataModel"

fun as_rank :: "bson \<Rightarrow> py_error + int option" where
  "as_rank (BInt i) = Inr (Some i)"
| "as_rank BNull = Inr None"
| "as_rank _ = Inl NotInDataModel"

fun as_real :: "bson \<Rightarrow> py_error + real" where
  "as_real (BDouble x) = Inr x"
| "as_real _ = Inl NotInDataModel"

fun as_string :: "bson \<Rightarrow> py_error + string" where
  "as_string (BString s) = Inr s"
| "as_string _ = Inl NotInDataModel"

definition of_rank :: "int option \<Rightarrow> bson" where
  "of_rank r = (case r of None \<Rightarrow> BNull | Some i \<Rightarrow> BInt i)"

definition MoveReportBSONHandler_writes :: "MoveReport \<Rightarrow> bson" where
  "MoveReportBSONHandler_writes moveReport =
     BDocument [(''a'', BInt (MoveReport.activation moveReport)),
                (''r'', of_rank (rank moveReport)),
                (''m'', BDouble (MoveReport.ambiguity moveReport)),
                (''o'', BInt (MoveReport.advantage moveReport)),
                (''l'', BInt (loss moveReport))]"

definition MoveReportBSONHandler_reads :: "bson \<Rightarrow> py_error + MoveReport" where
  "MoveReportBSONHandler_reads b =
     py_bind (getitem b ''a'') (\<lambda>a.
     py_bind (getitem b ''r'') (\<lambda>r.
     py_bind (getitem b ''m'') (\<lambda>m.
     py_bind (getitem b ''o'') (\<lambda>ov.
     py_bind (getitem b ''l'') (\<lambda>l.
     py_bind (as_int a) (\<lambda>a'.
     py_bind (as_rank r) (\<lambda>r'.
     py_bind (as_real m) (\<lambda>m'.
     py_bind (as_int ov) (\<lambda>o'.
     py_bind (as_int l) (\<lambda>l'.
     Inr \<lparr>MoveReport.activation = a', rank = r', MoveReport.ambiguity = m',
          MoveReport.advantage = o', loss = l'\<rparr>))))))))))"

definition GameReportBSONHandler_writes :: "GameReport \<Rightarrow> bson" where
  "GameReportBSONHandler_writes gameReport =
     BDocument [(''_id'', BString (id' gameReport)),
                (''reportId'', BString (reportId gameReport)),
                (''gameId'', BString (GameReport.gameId gameReport)),
                (''activation'', BInt (GameReport.activation gameReport)),
                (''moves'', BArray (map MoveReportBSONHandler_writes (moves gameReport)))]"

definition GameReportBSONHandler_reads :: "bson \<Rightarrow> py_error + GameReport" where
  "GameReportBSONHandler_reads b =
     py_bind (getitem b ''_id'') (\<lambda>i.
     py_bind (getitem b ''reportId'') (\<lambda>r.
     py_bind (getitem b ''gameId'') (\<lambda>g.
     py_bind (getitem b ''activation'') (\<lambda>a.
     py_bind (getitem b ''moves'') (\<lambda>ms.
     py_bind (iterate ms) (\<lambda>mBsons.
     py_bind (sequence (map MoveReportBSONHandler_reads mBsons)) (\<lambda>ms'.
     py_bind (as_string i) (\<lambda>i'.
     py_bind (as_string r) (\<lambda>r'.
     py_bind (as_string g) (\<lambda>g'.
     py_bind (as_int a) (\<lambda>a'.
     Inr \<lparr>id' = i', reportId = r', GameReport.gameId = g',
          GameReport.activation = a', moves = ms'\<rparr>)))))))))))"

section \<open>Concrete inputs\<close>

text \<open>A game of one report, and a move with a given loss, for the examples.\<close>

definition game :: "string \<Rightarrow> int \<Rightarrow> MoveReport list \<Rightarrow> GameReport" where
  "game n a ms =
     \<lparr>id' = n @ ''/r'', reportId = ''r'', GameReport.gameId = n,
      GameReport.activation = a, moves = ms\<rparr>"

definition move :: "int \<Rightarrow> MoveReport" where
  "move l =
     \<lparr>MoveReport.activation = 0, rank = None, MoveReport.ambiguity = 0,
      MoveReport.advantage = 0, loss = l\<rparr>"

definition analysed :: "real \<Rightarrow> AnalysedMove" where
  "analysed l =
     \<lparr>trueRank = Some 1, AnalysedMove.ambiguity = 1, AnalysedMove.advantage = 0,
      winningChancesLoss = l\<rparr>"

section \<open>Properties of the selection\<close>

lemma set_sortGames: "set (sortGames gs) = set gs"
  by (simp add: sortGames_def)

lemma length_sortGames: "length (sortGames gs) = length gs"
  by (simp add: sortGames_def)

lemma enumerate_nth: "enumerate 0 xs = map (\<lambda>i. (i, xs ! i)) [0..<length xs]"
  by (rule nth_equalityI) (simp_all add: nth_enumerate_eq)

text \<open>
  The selection, position by position: the game at position \<open>i\<close> of the sorted list is
  kept exactly when \<open>i <= p * N\<close> or its activation is at least 90.
\<close>

lemma topGames_positions:
  "topGames self p =
     map (\<lambda>i. sortGames (gameReports self) ! i)
       (filter (\<lambda>i. real i \<le> p * real (length (gameReports self))
                  \<or> GameReport.activation (sortGames (gameReports self) ! i) \<ge> 90)
          [0..<length (gameReports self)])"
  unfolding topGames_def Let_def enumerate_nth
  by (simp add: filter_map comp_def length_sortGames)

lemma topGames_subset: "set (topGames self p) \<subseteq> set (gameReports self)"
proof
  fix g
  assume "g \<in> set (topGames self p)"
  then obtain i where "i < length (gameReports self)" "g = sortGames (gameReports self) ! i"
    unfolding topGames_positions by auto
  then have "g \<in> set (sortGames (gameReports self))"
    by (simp add: length_sortGames)
  then show "g \<in> set (gameReports self)"
    by (simp add: set_sortGames)
qed

text \<open>
  C6: every game of the collection whose activation is at least 90 is among the
  games that \<open>topGames\<close> returns, whatever \<open>p\<close> is.
\<close>

theorem topGames_keeps_outliers:
  assumes "g \<in> set (gameReports self)" and "GameReport.activation g \<ge> 90"
  shows "g \<in> set (topGames self p)"
proof -
  let ?gs = "sortGames (gameReports self)"
  from assms(1) have "g \<in> set ?gs"
    by (simp add: set_sortGames)
  then obtain i where i: "i < length ?gs" "?gs ! i = g"
    by (auto simp: in_set_conv_nth)
  then have "i < length (gameReports self)"
    by (simp add: length_sortGames)
  with i assms(2) show ?thesis
    unfolding topGames_positions by force
qed

theorem topGames_keeps_outliers_witness:
  "game ''b'' 95 [] \<in> set (gameReports \<lparr>gameReports = [game ''a'' 10 [], game ''b'' 95 []]\<rparr>)
   \<and> GameReport.activation (game ''b'' 95 []) \<ge> 90
   \<and> game ''b'' 95 [] \<in> set (topGames \<lparr>gameReports = [game ''a'' 10 [], game ''b'' 95 []]\<rparr> (-1))"
  using topGames_keeps_outliers
    [of "game ''b'' 95 []" "\<lparr>gameReports = [game ''a'' 10 [], game ''b'' 95 []]\<rparr>" "-1"]
  by (simp add: game_def)

section \<open>Degenerate inputs\<close>

lemma selected_subset: "set (selected self topFlag) \<subseteq> set (gameReports self)"
  using topGames_subset [of self "15 / 100"]
  by (simp add: selected_def topGames_default_def)

lemma fold_max_ge: "x \<le> fold max xs (x::nat)"
proof (induction xs arbitrary: x)
  case Nil
  then show ?case by simp
next
  case (Cons a xs)
  have "x \<le> max a x" by simp
  also have "\<dots> \<le> fold max xs (max a x)" by (rule Cons)
  finally show ?case by simp
qed

lemma fold_max_mem_ge: "y \<in> set xs \<Longrightarrow> y \<le> fold max xs (x::nat)"
proof (induction xs arbitrary: x)
  case Nil
  then show ?case by simp
next
  case (Cons a xs)
  show ?case
  proof (cases "y = a")
    case True
    have "a \<le> max a x" by simp
    also have "\<dots> \<le> fold max xs (max a x)" by (rule fold_max_ge)
    finally show ?thesis using True by simp
  next
    case False
    with Cons show ?thesis by simp
  qed
qed

lemma fold_max_mem: "fold max xs (x::nat) \<in> set (x # xs)"
proof (induction xs arbitrary: x)
  case Nil
  then show ?case by simp
next
  case (Cons a xs)
  from Cons [of "max a x"] show ?case
    by (auto simp: max_def split: if_splits)
qed

lemma py_max_list_bounds:
  assumes "xs \<noteq> []"
  shows "\<exists>m. py_max_list xs = Inr m \<and> m \<in> set xs \<and> (\<forall>y \<in> set xs. y \<le> m)"
proof (cases xs)
  case Nil
  with assms show ?thesis by simp
next
  case (Cons x r)
  have "\<forall>y \<in> set (x # r). y \<le> fold max r x"
    using fold_max_ge [of x r] fold_max_mem_ge [of _ r x] by auto
  with Cons fold_max_mem [of r x] show ?thesis by simp
qed

lemma longestGame_total:
  "\<exists>n. longestGame self = Inr n \<and> (\<forall>g \<in> set (gameReports self). length (moves g) \<le> n)
       \<and> (n = 0 \<or> (\<exists>g \<in> set (gameReports self). length (moves g) = n))"
proof (cases "gameReports self = []")
  case True
  then show ?thesis by (simp add: longestGame_def)
next
  case False
  then have "map (\<lambda>gameReport. length (moves gameReport)) (gameReports self) \<noteq> []"
    by simp
  from py_max_list_bounds [OF this] False show ?thesis
    by (auto simp: longestGame_def)
qed

lemma longestGame_zero_iff:
  "longestGame self = Inr 0 \<longleftrightarrow> (\<forall>g \<in> set (gameReports self). moves g = [])"
proof -
  obtain n where n: "longestGame self = Inr n"
      "\<forall>g \<in> set (gameReports self). length (moves g) \<le> n"
      "n = 0 \<or> (\<exists>g \<in> set (gameReports self). length (moves g) = n)"
    using longestGame_total [of self] by blast
  show ?thesis
  proof
    assume "longestGame self = Inr 0"
    with n have "n = 0" by simp
    with n(2) show "\<forall>g \<in> set (gameReports self). moves g = []" by simp
  next
    assume a: "\<forall>g \<in> set (gameReports self). moves g = []"
    with n(3) have "n = 0" by auto
    with n(1) show "longestGame self = Inr 0" by simp
  qed
qed

lemma by_move_guard:
  assumes "longestGame self = Inr 0"
  shows "averageLossByMove self topFlag = Inr PyEmptyList"
    and "averageRankByMove self topFlag = Inr PyEmptyList"
    and "stdBracketLossByMove self topFlag = Inr PyEmptyList"
    and "stdBracketRankByMove self topFlag = Inr PyEmptyList"
  using assms
  by (simp_all add: averageLossByMove_def averageRankByMove_def stdBracketLossByMove_def
      stdBracketRankByMove_def)




text \<open>
  C3: the four operations by move that test \<open>longestGame\<close> return \<open>[]\<close> on a store
  without games or without moves (\<open>by_move_guard\<close>), but \<open>binnedMoveActivations\<close> has
  no such test: on the empty store its \<open>reduce\<close> without initial value raises
  \<open>TypeError\<close>.
\<close>

theorem binnedMoveActivations_empty_store:
  "binnedMoveActivations \<lparr>gameReports = []\<rparr> False = Inl TypeError
   \<and> binnedMoveActivations \<lparr>gameReports = []\<rparr> True = Inl TypeError
   \<and> averageLossByMove \<lparr>gameReports = []\<rparr> False = Inr PyEmptyList"
  by (simp add: binnedMoveActivations_def selected_def topGames_default_def topGames_def
      sortGames_def averageLossByMove_def longestGame_def)

lemma binnedMoveActivations_no_moves:
  "binnedMoveActivations \<lparr>gameReports = [game ''a'' 10 []]\<rparr> False
     = Inr (JsonDumps [0, 0, 0, 0, 0, 0, 0, 0, 0, 0])"
  by (simp add: binnedMoveActivations_def selected_def game_def GameReport_activations_def
      histogram_def decades_def upt_conv_Cons)


section \<open>Properties of the loss series\<close>

lemma GameReport_losses_nonempty:
  assumes "moves g \<noteq> []"
  shows "GameReport_losses g =
           Inr (butlast (map loss (moves g))
                @ [if last (map loss (moves g)) > 50 then 0 else last (map loss (moves g))])"
proof -
  from assms have "map loss (moves g) \<noteq> []" by simp
  then obtain xs x where ls: "map loss (moves g) = xs @ [x]"
    by (metis append_butlast_last_id)
  show ?thesis
    unfolding GameReport_losses_def Let_def ls by simp
qed

lemma zipAvgLOL_example:
  "zipAvgLOL (map (map Some) [[10, 20, 0], [5, 15]]) = Inr [Num (15 / 2), Num (35 / 2), Num 0]"
  by (simp add: zipAvgLOL_def zipLOL_def np_average_def mean_def upt_conv_Cons)

text \<open>
  C4: for a game with at least one move the series of losses is the list of the
  losses of its moves, with a last loss above 50 replaced by 0 and a last loss of at most
  50 kept. For two games whose losses are \<open>[10, 20, 99]\<close> and \<open>[5, 15]\<close> the series are
  \<open>[10, 20, 0]\<close> and \<open>[5, 15]\<close> and the means by move are 7.5, 17.5 and 0.
\<close>

theorem loss_series_correction:
  "(moves g \<noteq> [] \<longrightarrow>
      GameReport_losses g =
        Inr (butlast (map loss (moves g))
             @ [if last (map loss (moves g)) > 50 then 0 else last (map loss (moves g))]))
   \<and> (map loss (moves g1) = [10, 20, 99] \<and> map loss (moves g2) = [5, 15] \<longrightarrow>
        GameReportStore_losses \<lparr>gameReports = [g1, g2]\<rparr> False = Inr [[10, 20, 0], [5, 15]]
        \<and> averageLossByMove \<lparr>gameReports = [g1, g2]\<rparr> False
            = Inr (JsonDumps [Num (15 / 2), Num (35 / 2), Num 0]))"
proof (intro conjI impI)
  assume "moves g \<noteq> []"
  then show "GameReport_losses g =
        Inr (butlast (map loss (moves g))
             @ [if last (map loss (moves g)) > 50 then 0 else last (map loss (moves g))])"
    by (rule GameReport_losses_nonempty)
next
  assume a: "map loss (moves g1) = [10, 20, 99] \<and> map loss (moves g2) = [5, 15]"
  then have ne: "moves g1 \<noteq> []" "moves g2 \<noteq> []" by auto
  have l1: "GameReport_losses g1 = Inr [10, 20, 0]"
    using GameReport_losses_nonempty [OF ne(1)] a by simp
  have l2: "GameReport_losses g2 = Inr [5, 15]"
    using GameReport_losses_nonempty [OF ne(2)] a by simp
  show all: "GameReportStore_losses \<lparr>gameReports = [g1, g2]\<rparr> False = Inr [[10, 20, 0], [5, 15]]"
    by (simp add: GameReportStore_losses_def selected_def l1 l2)
  from a have "length (map loss (moves g1)) = 3" "length (map loss (moves g2)) = 2"
    by simp_all
  then have len: "length (moves g1) = 3" "length (moves g2) = 2"
    by simp_all
  have lg: "longestGame \<lparr>gameReports = [g1, g2]\<rparr> = Inr 3"
    by (simp add: longestGame_def len)
  show "averageLossByMove \<lparr>gameReports = [g1, g2]\<rparr> False
            = Inr (JsonDumps [Num (15 / 2), Num (35 / 2), Num 0])"
    unfolding averageLossByMove_def lg all
    using zipAvgLOL_example by simp
qed

theorem loss_series_correction_witness:
  "moves (game ''a'' 10 [move 60]) \<noteq> []
   \<and> GameReport_losses (game ''a'' 10 [move 60]) = Inr [0]
   \<and> map loss (moves (game ''a'' 30 [move 10, move 20, move 99])) = [10, 20, 99]
   \<and> map loss (moves (game ''b'' 20 [move 5, move 15])) = [5, 15]
   \<and> averageLossByMove
        \<lparr>gameReports = [game ''a'' 30 [move 10, move 20, move 99], game ''b'' 20 [move 5, move 15]]\<rparr>
        False = Inr (JsonDumps [Num (15 / 2), Num (35 / 2), Num 0])"
  using loss_series_correction [of "game ''a'' 10 [move 60]"
      "game ''a'' 30 [move 10, move 20, move 99]" "game ''b'' 20 [move 5, move 15]"]
  by (simp add: game_def move_def)

lemma losses_unchanged_example: "GameReport_losses (game ''a'' 10 [move 7, move 40]) = Inr [7, 40]"
  by (simp add: GameReport_losses_def game_def move_def)

section \<open>Properties of the histogram\<close>

lemma decade_count:
  "sum_list (map (\<lambda>k. if 10 * int k \<le> a \<and> a < 10 * int k + 10 then 1 else 0) [0..<n])
     = (if 0 \<le> a \<and> a < 10 * int n then (1::int) else 0)"
  by (induction n) auto

lemma sum_list_decades:
  "sum_list (map (\<lambda>i. if i \<le> a \<and> a < i + 10 then 1 else 0) decades)
     = (if 0 \<le> a \<and> a < 100 then (1::int) else 0)"
  using decade_count [of a 10] by (simp add: decades_def comp_def)

lemma sum_list_swap:
  "sum_list (map (\<lambda>i. sum_list (map (\<lambda>x. f i x) xs)) ds)
     = sum_list (map (\<lambda>x. sum_list (map (\<lambda>i. (f i x :: int)) ds)) xs)"
proof (induction xs)
  case Nil
  then show ?case by simp
next
  case (Cons a xs)
  have "sum_list (map (\<lambda>i. sum_list (map (\<lambda>x. f i x) (a # xs))) ds)
      = sum_list (map (\<lambda>i. f i a + sum_list (map (\<lambda>x. f i x) xs)) ds)"
    by simp
  also have "\<dots> = sum_list (map (\<lambda>i. f i a) ds)
                  + sum_list (map (\<lambda>i. sum_list (map (\<lambda>x. f i x) xs)) ds)"
    by (rule sum_list_addf)
  finally show ?case
    using Cons by simp
qed

lemma count_as_sum:
  "sum_list (map (\<lambda>x. if P x then 1 else 0) xs) = int (length (filter P xs))"
  by (induction xs) simp_all

lemma sum_list_histogram:
  "sum_list (histogram xs) = int (length (filter (\<lambda>x. 0 \<le> x \<and> x < 100) xs))"
proof -
  have "sum_list (histogram xs)
      = sum_list (map (\<lambda>i. sum_list (map (\<lambda>x. if i \<le> x \<and> x < i + 10 then 1 else 0) xs)) decades)"
    unfolding histogram_def by (simp only: sum_list_rev)
  also have "\<dots> = sum_list (map (\<lambda>x. sum_list (map (\<lambda>i. if i \<le> x \<and> x < i + 10 then 1 else 0) decades)) xs)"
    by (rule sum_list_swap)
  also have "\<dots> = sum_list (map (\<lambda>x. if 0 \<le> x \<and> x < 100 then 1 else 0) xs)"
    by (simp only: sum_list_decades)
  also have "\<dots> = int (length (filter (\<lambda>x. 0 \<le> x \<and> x < 100) xs))"
    by (rule count_as_sum)
  finally show ?thesis .
qed

lemma length_histogram: "length (histogram xs) = 10"
  by (simp add: histogram_def decades_def)

lemma nth_histogram:
  assumes "k < 10"
  shows "histogram xs ! k
     = int (length (filter (\<lambda>x. 90 - 10 * int k \<le> x \<and> x < 100 - 10 * int k) xs))"
proof -
  have len: "length decades = 10" by (simp add: decades_def)
  have "[0..<10] ! (9 - k) = 0 + (9 - k)"
    by (rule nth_upt) simp
  then have d: "decades ! (9 - k) = 90 - 10 * int k"
    using assms by (simp add: decades_def)
  have "histogram xs ! k
      = sum_list (map (\<lambda>x. if decades ! (9 - k) \<le> x \<and> x < decades ! (9 - k) + 10 then 1 else 0) xs)"
    unfolding histogram_def using assms len
    by (simp add: rev_nth)
  then show ?thesis
    unfolding d by (simp add: count_as_sum)
qed


lemma histogram_example: "histogram [5, 15, 25, 95] = [1, 0, 0, 0, 0, 0, 0, 1, 1, 1]"
  by (simp add: histogram_def decades_def upt_conv_Cons)

text \<open>
  C5, amended: when every activation of the store is an integer from 0 to 99,
  \<open>binnedActivations\<close> dumps a list of ten integers whose sum is the number of the games
  it runs over; entry \<open>k\<close> counts the activations from \<open>90 - 10 k\<close> up to, and without,
  \<open>100 - 10 k\<close>. The activations 5, 15, 25 and 95 give \<open>[1,0,0,0,0,0,0,1,1,1]\<close>.
\<close>

theorem binnedActivations_deciles:
  assumes "\<forall>g \<in> set (gameReports self). 0 \<le> GameReport.activation g \<and> GameReport.activation g < 100"
  shows "(\<exists>bins. binnedActivations self topFlag = JsonDumps bins
            \<and> length bins = 10
            \<and> sum_list bins = int (length (selected self topFlag))
            \<and> (\<forall>k<10. bins ! k =
                  int (length (filter (\<lambda>g. 90 - 10 * int k \<le> GameReport.activation g
                                           \<and> GameReport.activation g < 100 - 10 * int k)
                                 (selected self topFlag)))))
       \<and> binnedActivations
            \<lparr>gameReports = [game ''a'' 5 [], game ''b'' 15 [], game ''c'' 25 [], game ''d'' 95 []]\<rparr>
            False = JsonDumps [1, 0, 0, 0, 0, 0, 0, 1, 1, 1]"
proof -
  let ?as = "map GameReport.activation (selected self topFlag)"
  from assms selected_subset [of self topFlag]
  have "\<forall>g \<in> set (selected self topFlag). 0 \<le> GameReport.activation g \<and> GameReport.activation g < 100"
    by blast
  then have "filter (\<lambda>x. 0 \<le> x \<and> x < 100) ?as = ?as"
    by (simp add: filter_id_conv)
  then have total: "sum_list (histogram ?as) = int (length (selected self topFlag))"
    by (simp add: sum_list_histogram)
  have each: "histogram ?as ! k =
      int (length (filter (\<lambda>g. 90 - 10 * int k \<le> GameReport.activation g
                               \<and> GameReport.activation g < 100 - 10 * int k)
                     (selected self topFlag)))" if "k < 10" for k
    using nth_histogram [OF that, of ?as] by (simp add: filter_map comp_def)
  have ex: "binnedActivations
            \<lparr>gameReports = [game ''a'' 5 [], game ''b'' 15 [], game ''c'' 25 [], game ''d'' 95 []]\<rparr>
            False = JsonDumps [1, 0, 0, 0, 0, 0, 0, 1, 1, 1]"
    using histogram_example by (simp add: binnedActivations_def selected_def game_def)
  from total each ex show ?thesis
    by (simp add: binnedActivations_def length_histogram)
qed

theorem binnedActivations_deciles_witness:
  "gameReports \<lparr>gameReports = [game ''a'' 99 [], game ''b'' 0 []]\<rparr>
     = [game ''a'' 99 [], game ''b'' 0 []]
   \<and> 0 \<le> GameReport.activation (game ''a'' 99 []) \<and> GameReport.activation (game ''a'' 99 []) < 100
   \<and> 0 \<le> GameReport.activation (game ''b'' 0 []) \<and> GameReport.activation (game ''b'' 0 []) < 100
   \<and> (\<exists>bins. binnedActivations \<lparr>gameReports = [game ''a'' 99 [], game ''b'' 0 []]\<rparr> False
                 = JsonDumps bins
             \<and> length bins = 10 \<and> sum_list bins = 2)"
proof -
  let ?s = "\<lparr>gameReports = [game ''a'' 99 [], game ''b'' 0 []]\<rparr>"
  have h: "\<forall>g \<in> set (gameReports ?s). 0 \<le> GameReport.activation g \<and> GameReport.activation g < 100"
    by (simp add: game_def)
  from binnedActivations_deciles [OF h, of False]
  obtain bins where b: "binnedActivations ?s False = JsonDumps bins" "length bins = 10"
      "sum_list bins = int (length (selected ?s False))"
    by blast
  have "int (length (selected ?s False)) = 2"
    by (simp add: selected_def)
  with b have "\<exists>bins. binnedActivations ?s False = JsonDumps bins
             \<and> length bins = 10 \<and> sum_list bins = 2"
    by simp
  moreover have "0 \<le> GameReport.activation (game ''a'' 99 [])"
      "GameReport.activation (game ''a'' 99 []) < 100"
      "0 \<le> GameReport.activation (game ''b'' 0 [])"
      "GameReport.activation (game ''b'' 0 []) < 100"
    by (simp_all add: game_def)
  ultimately show ?thesis by simp
qed

text \<open>
  An activation of 100 lies in \<open>[0, 100]\<close> and in none of the ranges \<open>range(i, i+10)\<close>:
  the histogram of a single game of activation 100 sums to 0, not to 1.
\<close>

theorem binnedActivations_drops_100:
  "0 \<le> GameReport.activation (game ''a'' 100 [])
   \<and> GameReport.activation (game ''a'' 100 []) \<le> 100
   \<and> binnedActivations \<lparr>gameReports = [game ''a'' 100 []]\<rparr> False
       = JsonDumps [0, 0, 0, 0, 0, 0, 0, 0, 0, 0]
   \<and> sum_list [0, 0, 0, 0, 0, 0, 0, 0, 0, 0] \<noteq> int (length [game ''a'' 100 []])"
  by (simp add: binnedActivations_def selected_def game_def histogram_def decades_def upt_conv_Cons)

section \<open>Properties of the ragged transpose\<close>

lemma length_appendRow: "length (appendRow l is bins) = length bins"
  by (induction "is" arbitrary: bins) (simp_all split: option.splits)

lemma appendRow_nth:
  assumes "sorted_wrt (<) is" and "\<forall>i \<in> set is. i < length bins" and "j < length bins"
  shows "appendRow l is bins ! j =
           bins ! j @ (if j \<in> set is \<and> j < length l
                       then (case l ! j of None \<Rightarrow> [] | Some v \<Rightarrow> [v]) else [])"
  using assms
proof (induction "is" arbitrary: bins)
  case Nil
  then show ?case by simp
next
  case (Cons i "is")
  from Cons.prems(1) have sorted: "sorted_wrt (<) is" and above: "\<forall>k \<in> set is. i < k"
    by simp_all
  from above have fresh: "i \<notin> set is" by auto
  show ?case
  proof (cases "i < length l")
    case False
    with above have "\<forall>k \<in> set (i # is). \<not> k < length l" by auto
    with False show ?thesis by auto
  next
    case True
    show ?thesis
    proof (cases "l ! i")
      case None
      have "appendRow l is bins ! j =
           bins ! j @ (if j \<in> set is \<and> j < length l
                       then (case l ! j of None \<Rightarrow> [] | Some v \<Rightarrow> [v]) else [])"
        using sorted Cons.prems(2,3) by (intro Cons.IH) simp_all
      with True None fresh show ?thesis by auto
    next
      case (Some v)
      let ?bins = "bins[i := bins ! i @ [v]]"
      have "appendRow l is ?bins ! j =
           ?bins ! j @ (if j \<in> set is \<and> j < length l
                       then (case l ! j of None \<Rightarrow> [] | Some v \<Rightarrow> [v]) else [])"
        using sorted Cons.prems(2,3) by (intro Cons.IH) simp_all
      with True Some fresh Cons.prems(3) show ?thesis
        by (cases "j = i") auto
    qed
  qed
qed

lemma appendRow_upt:
  assumes "length bins = n" and "j < n"
  shows "appendRow l [0..<n] bins ! j =
           bins ! j @ (case (if j < length l then l ! j else None) of None \<Rightarrow> [] | Some v \<Rightarrow> [v])"
proof -
  have "appendRow l [0..<n] bins ! j =
           bins ! j @ (if j \<in> set [0..<n] \<and> j < length l
                       then (case l ! j of None \<Rightarrow> [] | Some v \<Rightarrow> [v]) else [])"
    using assms by (intro appendRow_nth) simp_all
  with assms(2) show ?thesis by simp
qed

lemma fold_appendRow:
  assumes "length bins = n"
  shows "length (fold (\<lambda>l b. appendRow l [0..<n] b) lol bins) = n
       \<and> (\<forall>j<n. fold (\<lambda>l b. appendRow l [0..<n] b) lol bins ! j =
             bins ! j @ List.map_filter (\<lambda>l. if j < length l then l ! j else None) lol)"
  using assms
proof (induction lol arbitrary: bins)
  case Nil
  then show ?case by simp
next
  case (Cons l lol)
  let ?bins = "appendRow l [0..<n] bins"
  have len: "length ?bins = n"
    using Cons.prems by (simp add: length_appendRow)
  from Cons.IH [OF len]
  have ih: "length (fold (\<lambda>l b. appendRow l [0..<n] b) lol ?bins) = n"
    "\<forall>j<n. fold (\<lambda>l b. appendRow l [0..<n] b) lol ?bins ! j =
             ?bins ! j @ List.map_filter (\<lambda>l. if j < length l then l ! j else None) lol"
    by simp_all
  show ?case
  proof (intro conjI allI impI)
    show "length (fold (\<lambda>l b. appendRow l [0..<n] b) (l # lol) bins) = n"
      using ih(1) by simp
  next
    fix j
    assume j: "j < n"
    from ih(2) j have "fold (\<lambda>l b. appendRow l [0..<n] b) (l # lol) bins ! j =
             ?bins ! j @ List.map_filter (\<lambda>l. if j < length l then l ! j else None) lol"
      by simp
    also have "?bins ! j = bins ! j
        @ (case (if j < length l then l ! j else None) of None \<Rightarrow> [] | Some v \<Rightarrow> [v])"
      using Cons.prems j by (rule appendRow_upt)
    finally show "fold (\<lambda>l b. appendRow l [0..<n] b) (l # lol) bins ! j =
             bins ! j @ List.map_filter (\<lambda>l. if j < length l then l ! j else None) (l # lol)"
      by (simp split: option.splits)
  qed
qed

lemma map_filter_column:
  "map Some (List.map_filter (\<lambda>l. if i < length l then l ! i else None) lol)
     = filter (\<lambda>v. v \<noteq> None) (map (\<lambda>l. l ! i) (filter (\<lambda>l. i < length l) lol))"
  by (induction lol) (auto split: option.splits)

lemma zipLOL_columns:
  assumes "lol \<noteq> []"
  shows "\<exists>cols. zipLOL lol = Inr cols
           \<and> length cols \<in> set (map length lol)
           \<and> (\<forall>l \<in> set lol. length l \<le> length cols)
           \<and> (\<forall>i<length cols. map Some (cols ! i) =
                 filter (\<lambda>v. v \<noteq> None) (map (\<lambda>l. l ! i) (filter (\<lambda>l. i < length l) lol)))"
proof -
  from assms have "map length lol \<noteq> []" by simp
  from py_max_list_bounds [OF this]
  obtain n where n: "py_max_list (map length lol) = Inr n" "n \<in> set (map length lol)"
      "\<forall>y \<in> set (map length lol). y \<le> n"
    by blast
  let ?cols = "fold (\<lambda>l b. appendRow l [0..<n] b) lol (replicate n [])"
  have z: "zipLOL lol = Inr ?cols"
    by (simp add: zipLOL_def n(1))
  have f: "length ?cols = n"
    "\<forall>j<n. ?cols ! j =
        replicate n [] ! j @ List.map_filter (\<lambda>l. if j < length l then l ! j else None) lol"
    using fold_appendRow [of "replicate n []" n lol] by simp_all
  have "\<forall>i<length ?cols. map Some (?cols ! i) =
                 filter (\<lambda>v. v \<noteq> None) (map (\<lambda>l. l ! i) (filter (\<lambda>l. i < length l) lol))"
    using f by (simp add: map_filter_column)
  moreover have "\<forall>l \<in> set lol. length l \<le> length ?cols"
    using n(3) f(1) by simp
  ultimately show ?thesis
    using z n(2) f(1) by auto
qed


text \<open>
  C2, amended: for a list of sequences that is not empty, \<open>zipLOL\<close> returns one column
  for each index below the length of the longest sequence; column \<open>i\<close> holds, in the
  order of the sequences, the values at index \<open>i\<close> of the sequences longer than \<open>i\<close>
  that are not \<open>None\<close>, and nothing for a shorter sequence. For \<open>N\<close> sequences of one
  length \<open>L\<close> without \<open>None\<close> there are \<open>L\<close> columns of \<open>N\<close> values each.
\<close>

theorem zipLOL_transpose:
  assumes "lol \<noteq> []"
  shows "\<exists>cols. zipLOL lol = Inr cols
           \<and> length cols \<in> set (map length lol)
           \<and> (\<forall>l \<in> set lol. length l \<le> length cols)
           \<and> (\<forall>i<length cols. map Some (cols ! i) =
                 filter (\<lambda>v. v \<noteq> None) (map (\<lambda>l. l ! i) (filter (\<lambda>l. i < length l) lol)))
           \<and> ((\<forall>l \<in> set lol. length l = L \<and> None \<notin> set l) \<longrightarrow>
                 length cols = L
                 \<and> (\<forall>i<L. length (cols ! i) = length lol
                           \<and> map Some (cols ! i) = map (\<lambda>l. l ! i) lol))"
proof -
  from zipLOL_columns [OF assms]
  obtain cols where c: "zipLOL lol = Inr cols" "length cols \<in> set (map length lol)"
      "\<forall>l \<in> set lol. length l \<le> length cols"
      "\<forall>i<length cols. map Some (cols ! i) =
          filter (\<lambda>v. v \<noteq> None) (map (\<lambda>l. l ! i) (filter (\<lambda>l. i < length l) lol))"
    by blast
  have "length cols = L
        \<and> (\<forall>i<L. length (cols ! i) = length lol \<and> map Some (cols ! i) = map (\<lambda>l. l ! i) lol)"
    if eq: "\<forall>l \<in> set lol. length l = L \<and> None \<notin> set l"
  proof (intro conjI allI impI)
    from c(2) eq show len: "length cols = L" by auto
    fix i
    assume i: "i < L"
    from eq i have all: "filter (\<lambda>l. i < length l) lol = lol"
      by (simp add: filter_id_conv)
    have "\<forall>l \<in> set lol. l ! i \<noteq> None"
    proof
      fix l
      assume "l \<in> set lol"
      with eq i have "l ! i \<in> set l" "None \<notin> set l" by simp_all
      then show "l ! i \<noteq> None" by metis
    qed
    then have "filter (\<lambda>v. v \<noteq> None) (map (\<lambda>l. l ! i) lol) = map (\<lambda>l. l ! i) lol"
      by (simp add: filter_id_conv)
    with c(4) len i all show col: "map Some (cols ! i) = map (\<lambda>l. l ! i) lol"
      by simp
    from arg_cong [OF col, of length] show "length (cols ! i) = length lol"
      by simp
  qed
  with c show ?thesis by blast
qed

theorem zipLOL_transpose_witness:
  "[[Some 1, Some 2], [Some 3, Some (4::int)]] \<noteq> []
   \<and> length [Some 1, Some (2::int)] = 2 \<and> None \<notin> set [Some 1, Some (2::int)]
   \<and> length [Some 3, Some (4::int)] = 2 \<and> None \<notin> set [Some 3, Some (4::int)]
   \<and> (\<exists>cols. zipLOL [[Some 1, Some 2], [Some 3, Some (4::int)]] = Inr cols
         \<and> length cols = 2
         \<and> (\<forall>i<2. length (cols ! i) = 2))"
proof -
  let ?lol = "[[Some 1, Some 2], [Some 3, Some (4::int)]]"
  have ne: "?lol \<noteq> []" by simp
  have eq: "\<forall>l \<in> set ?lol. length l = 2 \<and> None \<notin> set l" by simp
  from zipLOL_transpose [OF ne, of 2] eq
  have "\<exists>cols. zipLOL ?lol = Inr cols \<and> length cols = 2
         \<and> (\<forall>i<2. length (cols ! i) = length ?lol)"
    by blast
  moreover have "length ?lol = 2" by simp
  ultimately have "\<exists>cols. zipLOL ?lol = Inr cols \<and> length cols = 2 \<and> (\<forall>i<2. length (cols ! i) = 2)"
    by (simp only:)
  with ne show ?thesis by simp
qed

text \<open>
  The test \<open>l[i] is not None\<close> leaves a \<open>None\<close> out of its column: the single sequence
  \<open>[None]\<close> has length 1, and its only column holds no value.
\<close>

theorem zipLOL_skips_None:
  "zipLOL [[None :: int option]] = Inr [[]]
   \<and> length [[None :: int option]] = 1
   \<and> length ([] :: int list) \<noteq> length [[None :: int option]]"
  by (simp add: zipLOL_def)

lemma zipLOL_ragged_example:
  "zipLOL [[Some 1, Some 2, Some (3::int)], [Some 4], [Some 5, None]] = Inr [[1, 4, 5], [2], [3]]"
  by (simp add: zipLOL_def upt_conv_Cons)

lemma zipLOL_empty: "zipLOL [] = Inl ValueError"
  by (simp add: zipLOL_def)

section \<open>Properties of the standard-deviation band\<close>

lemma py_max_not_below: "\<not> np_less (py_max a b) (Num b)"
  by (cases a) (simp_all add: py_max_def)

lemma py_max_Num: "py_max (Num a) b = Num (max a b)"
  by (simp add: py_max_def max_def)

lemma variance_nonneg:
  "0 \<le> sum_list (map (\<lambda>x. (real_of_int x - m)\<^sup>2) b) / real (length b)"
  by (intro divide_nonneg_nonneg sum_list_nonneg) auto

lemma stdBracket_columns:
  assumes "zipLOL lol = Inr cols"
  shows "stdBracket lol lowerLimit =
           Inr \<lparr>top' = map (\<lambda>c. np_add (np_average c) (np_std c)) cols,
                bottom = map (\<lambda>c. py_max (np_sub (np_average c) (np_std c)) lowerLimit) cols\<rparr>"
proof -
  have t: "map (\<lambda>(i, avg). np_add avg (map np_std cols ! i)) (enumerate 0 (map np_average cols))
         = map (\<lambda>c. np_add (np_average c) (np_std c)) cols"
    by (rule nth_equalityI) (simp_all add: nth_enumerate_eq)
  have b: "map (\<lambda>(i, avg). py_max (np_sub avg (map np_std cols ! i)) lowerLimit)
             (enumerate 0 (map np_average cols))
         = map (\<lambda>c. py_max (np_sub (np_average c) (np_std c)) lowerLimit) cols"
    by (rule nth_equalityI) (simp_all add: nth_enumerate_eq)
  show ?thesis
    unfolding stdBracket_def zipStdLOL_def zipAvgLOL_def assms
    by (simp add: t b)
qed

text \<open>
  C7: for a list of sequences that is not empty and every lower limit, \<open>stdBracket\<close>
  returns for each column of \<open>zipLOL\<close> the mean plus the standard deviation as \<open>top\<close>
  and Python's \<open>max\<close> of the mean minus the standard deviation and the lower limit as
  \<open>bottom\<close>; no \<open>bottom\<close> value is below the lower limit. For a column that is not
  empty these are the numbers \<open>m + s\<close> and \<open>max (m - s) lowerLimit\<close>.
\<close>

theorem stdBracket_band:
  assumes "lol \<noteq> []"
  shows "\<exists>cols b. zipLOL lol = Inr cols \<and> stdBracket lol lowerLimit = Inr b
           \<and> length (top' b) = length cols \<and> length (bottom b) = length cols
           \<and> (\<forall>i<length cols.
                 top' b ! i = np_add (np_average (cols ! i)) (np_std (cols ! i))
               \<and> bottom b ! i = py_max (np_sub (np_average (cols ! i)) (np_std (cols ! i))) lowerLimit
               \<and> \<not> np_less (bottom b ! i) (Num lowerLimit)
               \<and> (cols ! i \<noteq> [] \<longrightarrow>
                    (\<exists>m s. np_average (cols ! i) = Num m \<and> np_std (cols ! i) = Num s \<and> 0 \<le> s
                         \<and> top' b ! i = Num (m + s)
                         \<and> bottom b ! i = Num (max (m - s) lowerLimit)
                         \<and> lowerLimit \<le> max (m - s) lowerLimit)))"
proof -
  from zipLOL_columns [OF assms] obtain cols where c: "zipLOL lol = Inr cols"
    by blast
  let ?b = "\<lparr>top' = map (\<lambda>c. np_add (np_average c) (np_std c)) cols,
             bottom = map (\<lambda>c. py_max (np_sub (np_average c) (np_std c)) lowerLimit) cols\<rparr>"
  have s: "stdBracket lol lowerLimit = Inr ?b"
    using c by (rule stdBracket_columns)
  have "\<exists>m s. np_average (cols ! i) = Num m \<and> np_std (cols ! i) = Num s \<and> 0 \<le> s
            \<and> top' ?b ! i = Num (m + s)
            \<and> bottom ?b ! i = Num (max (m - s) lowerLimit)
            \<and> lowerLimit \<le> max (m - s) lowerLimit"
    if "i < length cols" "cols ! i \<noteq> []" for i
    using that by (simp add: np_average_def np_std_def py_max_Num variance_nonneg)
  then have "\<forall>i<length cols.
                 top' ?b ! i = np_add (np_average (cols ! i)) (np_std (cols ! i))
               \<and> bottom ?b ! i = py_max (np_sub (np_average (cols ! i)) (np_std (cols ! i))) lowerLimit
               \<and> \<not> np_less (bottom ?b ! i) (Num lowerLimit)
               \<and> (cols ! i \<noteq> [] \<longrightarrow>
                    (\<exists>m s. np_average (cols ! i) = Num m \<and> np_std (cols ! i) = Num s \<and> 0 \<le> s
                         \<and> top' ?b ! i = Num (m + s)
                         \<and> bottom ?b ! i = Num (max (m - s) lowerLimit)
                         \<and> lowerLimit \<le> max (m - s) lowerLimit))"
    by (simp add: py_max_not_below)
  moreover have "length (top' ?b) = length cols" "length (bottom ?b) = length cols"
    by simp_all
  ultimately show ?thesis
    using c s by blast
qed

lemma stdBracket_example:
  "stdBracket [[Some 1, Some 10], [Some 3]] 2
     = Inr \<lparr>top' = [Num 3, Num 10], bottom = [Num 2, Num 10]\<rparr>"
proof -
  have z: "zipLOL [[Some 1, Some 10], [Some (3::int)]] = Inr [[1, 3], [10]]"
    by (simp add: zipLOL_def upt_conv_Cons)
  show ?thesis
    unfolding stdBracket_columns [OF z]
    by (simp add: np_average_def np_std_def mean_def py_max_def real_sqrt_divide)
qed

theorem stdBracket_band_witness:
  "[[Some 1, Some 10], [Some (3::int)]] \<noteq> []
   \<and> zipLOL [[Some 1, Some 10], [Some (3::int)]] = Inr [[1, 3], [10]]
   \<and> stdBracket [[Some 1, Some 10], [Some 3]] 2
       = Inr \<lparr>top' = [Num 3, Num 10], bottom = [Num 2, Num 10]\<rparr>
   \<and> (\<exists>cols b. zipLOL [[Some 1, Some 10], [Some (3::int)]] = Inr cols
         \<and> stdBracket [[Some 1, Some 10], [Some 3]] 2 = Inr b
         \<and> (\<forall>i<length cols. \<not> np_less (bottom b ! i) (Num 2)))"
proof -
  let ?lol = "[[Some 1, Some 10], [Some (3::int)]]"
  have ne: "?lol \<noteq> []" by simp
  have z: "zipLOL ?lol = Inr [[1, 3], [10]]"
    by (simp add: zipLOL_def upt_conv_Cons)
  from stdBracket_band [OF ne, of 2]
  have "\<exists>cols b. zipLOL ?lol = Inr cols \<and> stdBracket ?lol 2 = Inr b
         \<and> (\<forall>i<length cols. \<not> np_less (bottom b ! i) (Num 2))"
    by blast
  with ne z stdBracket_example show ?thesis by blast
qed

section \<open>Round trip through the store adapters\<close>

lemma MoveReport_roundtrip:
  "MoveReportBSONHandler_reads (MoveReportBSONHandler_writes m) = Inr m"
  by (cases "rank m")
     (simp_all add: MoveReportBSONHandler_reads_def MoveReportBSONHandler_writes_def
        py_bind_def of_rank_def)

lemma moves_roundtrip:
  "sequence (map (MoveReportBSONHandler_reads \<circ> MoveReportBSONHandler_writes) ms) = Inr ms"
  by (induction ms) (simp_all add: MoveReport_roundtrip)

text \<open>
  C9: reading what the adapter wrote of a game report, with its move reports, gives the
  report back, field for field.
\<close>

theorem GameReport_roundtrip:
  "GameReportBSONHandler_reads (GameReportBSONHandler_writes g) = Inr g"
  by (simp add: GameReportBSONHandler_reads_def GameReportBSONHandler_writes_def
      py_bind_def moves_roundtrip)

theorem GameReport_roundtrip_witness:
  "GameReportBSONHandler_reads
     (GameReportBSONHandler_writes (game ''a'' 40 [move 7, (move 3)\<lparr>rank := Some 2\<rparr>]))
   = Inr (game ''a'' 40 [move 7, (move 3)\<lparr>rank := Some 2\<rparr>])"
  using GameReport_roundtrip [of "game ''a'' 40 [move 7, (move 3)\<lparr>rank := Some 2\<rparr>]"]
  by simp

section \<open>Properties of the report builder\<close>

lemma sequence_Inr_iff: "sequence rs = Inr vs \<longleftrightarrow> rs = map Inr vs"
proof (induction rs arbitrary: vs)
  case Nil
  then show ?case by auto
next
  case (Cons r rs)
  show ?case
  proof (cases r)
    case (Inl e)
    then show ?thesis by (cases vs) auto
  next
    case (Inr v)
    show ?thesis
    proof (cases "sequence rs")
      case (Inl e)
      with Cons [of "tl vs"] Inr show ?thesis
        by (cases vs) auto
    next
      case right: (Inr ws)
      with Cons [of ws] have "rs = map Inr ws" by simp
      with Inr right show ?thesis
        by (cases vs) (auto simp: inj_map_eq_map [OF inj_Inr])
    qed
  qed
qed

lemma MoveReport_new_defined:
  assumes "fst p \<noteq> []" and "snd p \<noteq> []"
  shows "\<exists>m. MoveReport_new am p = Inr m"
  using assms by (simp add: MoveReport_new_def moveActivation_def py_bind_def py_get_def)

lemma MoveReport_new_error: "MoveReport_new am p = Inl e \<Longrightarrow> e = IndexError"
  by (auto simp: MoveReport_new_def moveActivation_def py_bind_def py_get_def split: if_splits)

text \<open>
  C8, amended: \<open>GameReport.new\<close> checks no lengths. With predictions of the expected
  shape it raises nothing and pairs the analysed moves with the prediction entries by
  position up to the shortest of the three lists, so the game report has as many
  moves as the shortest list and the rest is dropped.
\<close>

theorem GameReport_new_truncates:
  assumes "py_get gamePredictions 0 = Inr gp"
    and "py_get gp 1 = Inr o1" and "py_get o1 0 = Inr xs"
    and "py_get gp 2 = Inr o2" and "py_get o2 0 = Inr ys"
    and "\<forall>x \<in> set xs. x \<noteq> []" and "\<forall>y \<in> set ys. y \<noteq> []"
  shows "\<exists>g. GameReport_new analysedGame gameActivation gamePredictions rid userId = Inr g
           \<and> length (moves g) = min (length (analysedMoves analysedGame)) (min (length xs) (length ys))
           \<and> (\<forall>i<length (moves g).
                 MoveReport_new (analysedMoves analysedGame ! i) (xs ! i, ys ! i) = Inr (moves g ! i))"
proof -
  let ?zs = "zip (analysedMoves analysedGame) (zip xs ys)"
  let ?rs = "map (\<lambda>(am, p). MoveReport_new am p) ?zs"
  have mp: "movePredictions gp = Inr (zip xs ys)"
    using assms(2-5) by (simp add: movePredictions_def py_bind_def)
  have "\<forall>z \<in> set ?zs. \<exists>m. (\<lambda>(am, p). MoveReport_new am p) z = Inr m"
  proof
    fix z
    assume zin: "z \<in> set ?zs"
    obtain am x y where z: "z = (am, x, y)"
      by (rule prod_cases3)
    from zin z have "(x, y) \<in> set (zip xs ys)"
      by (auto dest: set_zip_rightD)
    then have "x \<in> set xs" "y \<in> set ys"
      by (auto dest: set_zip_leftD set_zip_rightD)
    with assms(6,7) have "fst (x, y) \<noteq> []" "snd (x, y) \<noteq> []" by simp_all
    from MoveReport_new_defined [OF this, of am]
    show "\<exists>m. (\<lambda>(am, p). MoveReport_new am p) z = Inr m"
      by (simp add: z)
  qed
  then have "\<forall>r \<in> set ?rs. r = Inr (projr r)"
    by auto
  then have "?rs = map Inr (map projr ?rs)"
    by (simp add: map_idI)
  then have sq: "sequence ?rs = Inr (map projr ?rs)"
    by (simp only: sequence_Inr_iff)
  let ?g = "\<lparr>id' = AnalysedGame.gameId analysedGame @ ''/'' @ rid, reportId = rid,
            GameReport.gameId = AnalysedGame.gameId analysedGame,
            GameReport.activation = gameActivation, moves = map projr ?rs\<rparr>"
  have res: "GameReport_new analysedGame gameActivation gamePredictions rid userId = Inr ?g"
    unfolding GameReport_new_def by (simp add: py_bind_def assms(1) mp sq)
  have len: "length (moves ?g) = min (length (analysedMoves analysedGame)) (min (length xs) (length ys))"
    by simp
  have "MoveReport_new (analysedMoves analysedGame ! i) (xs ! i, ys ! i) = Inr (moves ?g ! i)"
    if "i < length (moves ?g)" for i
  proof -
    from that have i: "i < length ?rs" by simp
    then have "?rs ! i \<in> set ?rs" by (rule nth_mem)
    with \<open>\<forall>r \<in> set ?rs. r = Inr (projr r)\<close> have "?rs ! i = Inr (projr (?rs ! i))"
      by blast
    moreover have "?rs ! i = MoveReport_new (analysedMoves analysedGame ! i) (xs ! i, ys ! i)"
      using i by simp
    ultimately show ?thesis
      using i by simp
  qed
  with res len show ?thesis by blast
qed


theorem GameReport_new_truncates_witness:
  "py_get [[[], [[[1]]], [[[0 :: real]]]]] 0 = Inr [[], [[[1]]], [[[0]]]]
   \<and> (\<exists>g. GameReport_new \<lparr>AnalysedGame.gameId = ''g'', analysedMoves = [analysed 0, analysed 0]\<rparr>
              40 [[[], [[[1]]], [[[0]]]]] ''r'' ''u'' = Inr g
          \<and> length (moves g) = 1)"
proof -
  let ?gp = "[[], [[[1]]], [[[0 :: real]]]]"
  have a: "py_get [?gp] 0 = Inr ?gp" "py_get ?gp 1 = Inr [[[1]]]" "py_get [[[1 :: real]]] 0 = Inr [[1]]"
      "py_get ?gp 2 = Inr [[[0]]]" "py_get [[[0 :: real]]] 0 = Inr [[0]]"
    by (simp_all add: py_get_def)
  have b: "\<forall>x \<in> set [[1 :: real]]. x \<noteq> []" "\<forall>y \<in> set [[0 :: real]]. y \<noteq> []"
    by simp_all
  from GameReport_new_truncates [OF a b,
      of "\<lparr>AnalysedGame.gameId = ''g'', analysedMoves = [analysed 0, analysed 0]\<rparr>" 40 "''r''" "''u''"]
  have "\<exists>g. GameReport_new \<lparr>AnalysedGame.gameId = ''g'', analysedMoves = [analysed 0, analysed 0]\<rparr>
              40 [?gp] ''r'' ''u'' = Inr g
          \<and> length (moves g) = 1"
    by auto
  with a(1) show ?thesis by blast
qed

text \<open>
  Two analysed moves and one prediction entry: the result is a game report with one
  move, not an error.
\<close>

theorem GameReport_new_no_error:
  "GameReport_new \<lparr>AnalysedGame.gameId = ''g'', analysedMoves = [analysed 0, analysed (1 / 2)]\<rparr>
       40 [[[], [[[1]]], [[[0]]]]] ''r'' ''u''
     = Inr \<lparr>id' = ''g/r'', reportId = ''r'', GameReport.gameId = ''g'', GameReport.activation = 40,
            moves = [\<lparr>MoveReport.activation = 50, rank = Some 1, MoveReport.ambiguity = 1,
                      MoveReport.advantage = 0, loss = 0\<rparr>]\<rparr>
   \<and> length [analysed 0, analysed (1 / 2)] \<noteq> length [[1 :: real]]"
  by (simp add: GameReport_new_def movePredictions_def py_bind_def py_get_def MoveReport_new_def
      moveActivation_def py_int_def analysed_def)

section \<open>The cut-off of the selection\<close>





section \<open>Losses of a game without moves\<close>








end
